theory Spec2Isabelle
  imports Complex_Main
begin

section \<open>Budget report generator (rpt.py): a shallow embedding\<close>

text \<open>
  The development follows \<^verbatim>\<open>src/rpt.py\<close>, class \<^verbatim>\<open>ReportGenerator\<close>. What the
  program takes from the outside world is an explicit argument of the model: the set of
  existing files, the wall clock, the state of each override file, the table returned by
  the spreadsheet reader, and the behaviour of the chart and document back ends.
\<close>

subsection \<open>Text helpers of the Python runtime\<close>

text \<open>\<^verbatim>\<open>str(n)\<close> for a non-negative integer: its decimal digits.\<close>

definition digit_char :: "nat \<Rightarrow> char" where
  "digit_char d = ''0123456789'' ! d"

fun str_nat :: "nat \<Rightarrow> string" where
  "str_nat n = (if n < 10 then [digit_char n] else str_nat (n div 10) @ [digit_char (n mod 10)])"

declare str_nat.simps [simp del]

text \<open>\<^verbatim>\<open>s.startswith(p)\<close>.\<close>

definition startswith :: "string \<Rightarrow> string \<Rightarrow> bool" where
  "startswith s p = (take (length p) s = p)"

text \<open>
  A character of the model is a code point below 256, so a string is a Python \<^verbatim>\<open>str\<close>
  of such code points. \<^verbatim>\<open>str.isspace\<close> holds of twelve of them: the controls
  \<^verbatim>\<open>\t \n \v \f \r\<close>, the separators 0x1c to 0x1f, the space, the next-line control
  0x85 and the no-break space 0xa0.
\<close>

definition isspace :: "char \<Rightarrow> bool" where
  "isspace c = (of_char c \<in> {9, 10, 11, 12, 13, 28, 29, 30, 31, 32, 133, 160 :: nat})"

text \<open>\<^verbatim>\<open>s.strip()\<close>: leading and trailing whitespace removed.\<close>

definition lstrip :: "string \<Rightarrow> string" where
  "lstrip s = dropWhile isspace s"

definition rstrip :: "string \<Rightarrow> string" where
  "rstrip s = rev (dropWhile isspace (rev s))"

definition strip :: "string \<Rightarrow> string" where
  "strip s = rstrip (lstrip s)"

text \<open>\<^verbatim>\<open>s.split('\n')\<close>: the pieces between line feeds; never an empty list.\<close>

abbreviation nl :: char where
  "nl \<equiv> CHR 0x0A"

fun split_lines :: "string \<Rightarrow> string list" where
  "split_lines [] = [[]]"
| "split_lines (c # cs) =
     (if c = nl then [] # split_lines cs
      else (case split_lines cs of
              [] \<Rightarrow> [[c]]
            | l # ls \<Rightarrow> (c # l) # ls))"

text \<open>
  \<^verbatim>\<open>s.split('\n\n')\<close>: the pieces between non-overlapping occurrences of two line
  feeds, found from the left.
\<close>

fun split_paragraphs :: "string \<Rightarrow> string list" where
  "split_paragraphs [] = [[]]"
| "split_paragraphs [c] = [[c]]"
| "split_paragraphs (c # d # cs) =
     (if c = nl \<and> d = nl then [] # split_paragraphs cs
      else (case split_paragraphs (d # cs) of
              [] \<Rightarrow> [[c]]
            | g # gs \<Rightarrow> (c # g) # gs))"

text \<open>\<^verbatim>\<open>sep.join(xs)\<close>.\<close>

fun join :: "string \<Rightarrow> string list \<Rightarrow> string" where
  "join sep [] = []"
| "join sep [x] = x"
| "join sep (x # y # ys) = x @ sep @ join sep (y # ys)"

subsection \<open>The wall clock\<close>

record datetime =
  year :: nat
  month :: nat
  day :: nat
  hour :: nat
  minute :: nat
  second :: nat

text \<open>Two-digit, zero-padded fields of \<^verbatim>\<open>strftime\<close> (\<^verbatim>\<open>%m %d %H %M %S\<close>).\<close>

definition pad2 :: "nat \<Rightarrow> string" where
  "pad2 n = (if n < 10 then ''0'' @ str_nat n else str_nat n)"

text \<open>\<^verbatim>\<open>strftime("%Y-%m-%d")\<close>, for a four-digit year.\<close>

definition strftime_Ymd :: "datetime \<Rightarrow> string" where
  "strftime_Ymd t = str_nat (year t) @ ''-'' @ pad2 (month t) @ ''-'' @ pad2 (day t)"

text \<open>\<^verbatim>\<open>strftime("%H%M%S")\<close>: the time of day, to the second.\<close>

definition strftime_HMS :: "datetime \<Rightarrow> string" where
  "strftime_HMS t = pad2 (hour t) @ pad2 (minute t) @ pad2 (second t)"

definition month_name :: "nat \<Rightarrow> string" where
  "month_name m =
     [''January'', ''February'', ''March'', ''April'', ''May'', ''June'', ''July'',
      ''August'', ''September'', ''October'', ''November'', ''December''] ! (m - 1)"

text \<open>\<^verbatim>\<open>strftime("%B %d, %Y")\<close>, for a month between 1 and 12.\<close>

definition strftime_BdY :: "datetime \<Rightarrow> string" where
  "strftime_BdY t = month_name (month t) @ '' '' @ pad2 (day t) @ '', '' @ str_nat (year t)"

subsection \<open>Paths and the output name\<close>

text \<open>
  A \<^verbatim>\<open>pathlib.Path\<close> is its directory and its final component. The file system is the set
  of paths at which a file exists; \<^verbatim>\<open>p.exists()\<close> is membership.
\<close>

record path =
  parent :: string
  name :: string

text \<open>
  \<^verbatim>\<open>name.rfind('.')\<close>: the index of the last dot, if there is one.
\<close>

definition rfind_dot :: "string \<Rightarrow> nat option" where
  "rfind_dot s =
     (if CHR ''.'' \<in> set s
      then Some (length s - 1 - length (takeWhile (\<lambda>c. c \<noteq> CHR ''.'') (rev s)))
      else None)"

text \<open>
  \<^verbatim>\<open>Path.suffix\<close> and \<^verbatim>\<open>Path.stem\<close>: the name is cut at its last dot when that dot is
  neither the first nor the last character.
\<close>

definition suffix :: "path \<Rightarrow> string" where
  "suffix p =
     (case rfind_dot (name p) of
        None \<Rightarrow> []
      | Some i \<Rightarrow> if 0 < i \<and> i < length (name p) - 1 then drop i (name p) else [])"

definition stem :: "path \<Rightarrow> string" where
  "stem p =
     (case rfind_dot (name p) of
        None \<Rightarrow> name p
      | Some i \<Rightarrow> if 0 < i \<and> i < length (name p) - 1 then take i (name p) else name p)"

text \<open>
  The \<^verbatim>\<open>while True\<close> loop of \<^verbatim>\<open>_get_unique_filename\<close> (lines 42 to 55), entered with
  \<^verbatim>\<open>counter = 2\<close>. The arguments are the file system, the clock, and the three parts of the
  base path the loop has saved in \<^verbatim>\<open>parent_dir\<close>, \<^verbatim>\<open>name_stem\<close> and \<^verbatim>\<open>extension\<close>.
\<close>

function version_loop :: "path set \<Rightarrow> datetime \<Rightarrow> string \<Rightarrow> string \<Rightarrow> string \<Rightarrow> nat \<Rightarrow> path" where
  "version_loop fs now parent_dir name_stem extension counter =
     (let new_filename = name_stem @ ''_v'' @ str_nat counter @ extension;
          new_filepath = \<lparr>parent = parent_dir, name = new_filename\<rparr>
      in if new_filepath \<notin> fs then new_filepath
         else if counter + 1 > 100
           then \<lparr>parent = parent_dir, name = name_stem @ ''_'' @ strftime_HMS now @ extension\<rparr>
           else version_loop fs now parent_dir name_stem extension (counter + 1))"
  by pat_completeness auto
termination
  by (relation "measure (\<lambda>(fs, now, parent_dir, name_stem, extension, counter). 101 - counter)") auto

declare version_loop.simps [simp del]

text \<open>\<^verbatim>\<open>ReportGenerator._get_unique_filename\<close>.\<close>

definition get_unique_filename :: "path set \<Rightarrow> datetime \<Rightarrow> path \<Rightarrow> path" where
  "get_unique_filename fs now base_filepath =
     (if base_filepath \<notin> fs then base_filepath
      else version_loop fs now (parent base_filepath) (stem base_filepath) (suffix base_filepath) 2)"

text \<open>
  A name that \<^verbatim>\<open>pathlib\<close> (on a POSIX system) takes as one path component and keeps
  as it is: it is not empty, is not \<^verbatim>\<open>.\<close>, and has no slash.
\<close>

definition single_component :: "string \<Rightarrow> bool" where
  "single_component s = (s \<noteq> [] \<and> s \<noteq> ''.'' \<and> CHR ''/'' \<notin> set s)"

text \<open>
  The output path chosen by \<^verbatim>\<open>ReportGenerator.__init__\<close> (lines 17 to 27) from the
  optional \<^verbatim>\<open>output_file\<close> argument. The join \<^verbatim>\<open>reports_dir / x\<close> of line 27 is the
  pair of \<^verbatim>\<open>reports\<close> and \<^verbatim>\<open>x\<close> for an \<^verbatim>\<open>x\<close> that is a single component, and the
  model is the code for such names only: \<^verbatim>\<open>pathlib\<close> drops \<^verbatim>\<open>reports\<close> for an absolute
  \<^verbatim>\<open>x\<close> and changes the directory for an \<^verbatim>\<open>x\<close> with a slash. Creating the directory
  \<^verbatim>\<open>reports\<close> adds no file to it.
\<close>

definition reports_dir :: string where
  "reports_dir = ''reports''"

definition init_output_file :: "path set \<Rightarrow> datetime \<Rightarrow> string option \<Rightarrow> path" where
  "init_output_file fs now output_arg =
     (case output_arg of
        None \<Rightarrow>
          (let base_name = ''project_report_'' @ strftime_Ymd now @ ''.docx'';
               base_path = \<lparr>parent = reports_dir, name = base_name\<rparr>
           in get_unique_filename fs now base_path)
      | Some custom \<Rightarrow> \<lparr>parent = reports_dir, name = custom\<rparr>)"

text \<open>The default, dated base path of line 22 and 23.\<close>

definition dated_report :: "datetime \<Rightarrow> path" where
  "dated_report now =
     \<lparr>parent = reports_dir, name = ''project_report_'' @ strftime_Ymd now @ ''.docx''\<rparr>"

subsection \<open>FileNamer: the probes, as the specification words them\<close>

text \<open>
  The candidate \<^verbatim>\<open>{stem}_v{k}{ext}\<close> beside the base path, the candidate carrying the time
  of day, and the sequence of paths probed: the base path, then versions 2 to 100.
\<close>

definition versioned :: "path \<Rightarrow> nat \<Rightarrow> path" where
  "versioned base k = \<lparr>parent = parent base, name = stem base @ ''_v'' @ str_nat k @ suffix base\<rparr>"

definition timestamped :: "datetime \<Rightarrow> path \<Rightarrow> path" where
  "timestamped now base = \<lparr>parent = parent base, name = stem base @ ''_'' @ strftime_HMS now @ suffix base\<rparr>"

definition probes :: "path \<Rightarrow> path list" where
  "probes base = base # map (versioned base) [2..<101]"

definition resolve_spec :: "path set \<Rightarrow> datetime \<Rightarrow> path \<Rightarrow> path" where
  "resolve_spec fs now base =
     (case find (\<lambda>p. p \<notin> fs) (probes base) of
        Some p \<Rightarrow> p
      | None \<Rightarrow> timestamped now base)"

subsection \<open>Override files and the restricted markdown\<close>

text \<open>
  What the program finds at the name of an override file: nothing, a file that cannot be
  opened or decoded, or a file with its text.
\<close>

datatype file_state = Absent | Unreadable | Content string

text \<open>
  \<^verbatim>\<open>ReportGenerator.read_markdown_file\<close>: \<^verbatim>\<open>None\<close> when the file is absent and when
  reading raises (the exception is caught and logged), else the stripped text.
\<close>

definition read_markdown_file :: "(string \<Rightarrow> file_state) \<Rightarrow> string \<Rightarrow> string option" where
  "read_markdown_file files filename =
     (case files filename of
        Content s \<Rightarrow> Some (strip s)
      | Absent \<Rightarrow> None
      | Unreadable \<Rightarrow> None)"

text \<open>Python's truth value of an optional string: \<^verbatim>\<open>None\<close> and \<^verbatim>\<open>''\<close> are false.\<close>

definition truthy :: "string option \<Rightarrow> bool" where
  "truthy c = (case c of None \<Rightarrow> False | Some s \<Rightarrow> s \<noteq> [])"

text \<open>
  The blocks python-docx appends to the document. The table block holds the texts of its
  cells, header row first; the picture block holds the image file name.
\<close>

datatype block =
    Heading string nat
  | Paragraph string
  | ListBullet string
  | Table "string list list"
  | Picture string

text \<open>\<^verbatim>\<open>s.startswith(('- ', '* '))\<close>.\<close>

definition is_bullet :: "string \<Rightarrow> bool" where
  "is_bullet s = (startswith s ''- '' \<or> startswith s ''* '')"

text \<open>
  The body of the loop over paragraph groups in \<^verbatim>\<open>add_markdown_content\<close> (lines 83 to
  97): the blocks one group adds.
\<close>

definition paragraph_blocks :: "string \<Rightarrow> block list" where
  "paragraph_blocks grp =
     (let para = strip grp
      in if para = [] then []
         else if is_bullet para
           then (let bullets = [drop 2 (strip line). line \<leftarrow> split_lines para, is_bullet (strip line)]
                 in map ListBullet bullets)
           else [Paragraph para])"

definition markdown_blocks :: "string \<Rightarrow> block list" where
  "markdown_blocks content = concat (map paragraph_blocks (split_paragraphs content))"

text \<open>
  \<^verbatim>\<open>ReportGenerator.add_markdown_content\<close>, on the list of blocks of the document.
\<close>

definition add_markdown_content ::
  "(string \<Rightarrow> file_state) \<Rightarrow> string \<Rightarrow> string option \<Rightarrow> block list \<Rightarrow> block list" where
  "add_markdown_content files filename default_content doc =
     (let content = read_markdown_file files filename
      in if \<not> truthy content \<and> truthy default_content
           then (case default_content of
                   Some d \<Rightarrow> doc @ markdown_blocks d
                 | None \<Rightarrow> doc)
         else if \<not> truthy content then doc
         else (case content of
                 Some c \<Rightarrow> doc @ markdown_blocks c
               | None \<Rightarrow> doc))"

subsection \<open>ContentLoader: the bullet rule, as the specification words it\<close>

text \<open>
  A line starts with a marker when its first character is \<^verbatim>\<open>-\<close> or \<^verbatim>\<open>*\<close>; a group
  qualifies as a bullet list when every non-blank line of it does.
\<close>

definition starts_with_marker :: "string \<Rightarrow> bool" where
  "starts_with_marker l = (l \<noteq> [] \<and> (hd l = CHR ''-'' \<or> hd l = CHR ''*''))"

definition every_line_marked :: "string \<Rightarrow> bool" where
  "every_line_marked g =
     list_all (\<lambda>l. strip l = [] \<or> starts_with_marker (strip l)) (split_lines g)"

subsection \<open>Numbers\<close>

text \<open>
  A cell of a numeric column is a number or missing (pandas' NaN for a blank cell):
  \<open>rat option\<close>. The result of a float computation is a number, an infinity or NaN.
  Numbers are exact rationals: the model keeps the special values of float arithmetic and
  leaves out the rounding error of the 64-bit floats and the wrap-around of the 64-bit
  integers, so a computed number is the code's number where the code's arithmetic is
  exact.
\<close>

datatype pyfloat = Fin rat | PosInf | NegInf | NaN

text \<open>Element-wise \<open>-\<close> of two numeric cells.\<close>

definition cell_sub :: "rat option \<Rightarrow> rat option \<Rightarrow> rat option" where
  "cell_sub a b = (case (a, b) of (Some x, Some y) \<Rightarrow> Some (x - y) | _ \<Rightarrow> None)"

text \<open>
  Element-wise \<open>/\<close> as numpy computes it: dividing by zero raises nothing and gives an
  infinity with the sign of the numerator, and NaN for zero by zero.
\<close>

definition cell_div :: "rat option \<Rightarrow> rat option \<Rightarrow> pyfloat" where
  "cell_div a b =
     (case (a, b) of
        (Some x, Some y) \<Rightarrow>
          if y \<noteq> 0 then Fin (x / y)
          else if 0 < x then PosInf
          else if x < 0 then NegInf
          else NaN
      | _ \<Rightarrow> NaN)"

text \<open>Multiplication of a float by a positive constant.\<close>

definition pf_scale :: "pyfloat \<Rightarrow> rat \<Rightarrow> pyfloat" where
  "pf_scale v k = (case v of Fin x \<Rightarrow> Fin (x * k) | PosInf \<Rightarrow> PosInf | NegInf \<Rightarrow> NegInf | NaN \<Rightarrow> NaN)"

text \<open>Rounding to the nearest integer, ties to the even one.\<close>

definition round_half_even :: "rat \<Rightarrow> int" where
  "round_half_even y =
     (let f = \<lfloor>y\<rfloor>; r = y - of_int f
      in if r < 1 / 2 then f
         else if 1 / 2 < r then f + 1
         else if even f then f else f + 1)"

text \<open>\<^verbatim>\<open>Series.round(1)\<close>.\<close>

definition pf_round1 :: "pyfloat \<Rightarrow> pyfloat" where
  "pf_round1 v = (case v of Fin x \<Rightarrow> Fin (of_int (round_half_even (x * 10)) / 10) | _ \<Rightarrow> v)"

text \<open>The order of floats; NaN is below and above nothing.\<close>

fun pf_less :: "pyfloat \<Rightarrow> pyfloat \<Rightarrow> bool" where
  "pf_less NaN _ = False"
| "pf_less _ NaN = False"
| "pf_less (Fin x) (Fin y) = (x < y)"
| "pf_less NegInf NegInf = False"
| "pf_less NegInf _ = True"
| "pf_less _ NegInf = False"
| "pf_less PosInf _ = False"
| "pf_less _ PosInf = True"

text \<open>Digits in groups of three, for the \<^verbatim>\<open>,\<close> of a format specification.\<close>

fun commas :: "string \<Rightarrow> string" where
  "commas s =
     (if length s \<le> 3 then s
      else commas (take (length s - 3) s) @ '','' @ drop (length s - 3) s)"

declare commas.simps [simp del]

text \<open>
  The format specifications \<^verbatim>\<open>.{d}f\<close> and \<^verbatim>\<open>,.{d}f\<close> on a finite number: sign, integer
  digits (grouped or not), and \<open>d\<close> decimals after rounding half to even.
\<close>

definition fmt_fixed :: "bool \<Rightarrow> nat \<Rightarrow> rat \<Rightarrow> string" where
  "fmt_fixed grouping d x =
     (let scaled = nat (round_half_even (\<bar>x\<bar> * 10 ^ d));
          ip = str_nat (scaled div 10 ^ d);
          fp = str_nat (scaled mod 10 ^ d)
      in (if x < 0 then ''-'' else [])
         @ (if grouping then commas ip else ip)
         @ (if d = 0 then [] else ''.'' @ replicate (d - length fp) (CHR ''0'') @ fp))"

text \<open>\<^verbatim>\<open>f"{v:.1f}"\<close> on a float.\<close>

definition pf_fmt1 :: "pyfloat \<Rightarrow> string" where
  "pf_fmt1 v =
     (case v of Fin x \<Rightarrow> fmt_fixed False 1 x | PosInf \<Rightarrow> ''inf'' | NegInf \<Rightarrow> ''-inf'' | NaN \<Rightarrow> ''nan'')"

subsection \<open>The table\<close>

text \<open>
  The data frame returned by the spreadsheet reader, as far as the program reads it: the
  number of rows and the three columns it looks up by name, each absent or present. The
  category column holds text; the two numeric columns hold numbers or missing cells.
  \<open>Utilization\<close> is the column \<^verbatim>\<open>'Utilization%'\<close> that \<^verbatim>\<open>add_key_points\<close> adds to the
  frame. Columns the program never looks up by name are left out.
\<close>

record dataframe =
  nrows :: nat
  Task :: "string list option"
  Budgeted :: "rat option list option"
  Remaining :: "rat option list option"
  Utilization :: "pyfloat list option"

text \<open>Every column of a frame has one cell per row.\<close>

definition column_ok :: "nat \<Rightarrow> 'a list option \<Rightarrow> bool" where
  "column_ok n col = (case col of None \<Rightarrow> True | Some xs \<Rightarrow> length xs = n)"

definition wf_frame :: "dataframe \<Rightarrow> bool" where
  "wf_frame df =
     (column_ok (nrows df) (Task df) \<and> column_ok (nrows df) (Budgeted df)
      \<and> column_ok (nrows df) (Remaining df) \<and> column_ok (nrows df) (Utilization df))"

text \<open>\<^verbatim>\<open>Series.sum()\<close>: missing cells are skipped, the empty sum is 0.\<close>

definition column_sum :: "rat option list \<Rightarrow> rat" where
  "column_sum col = sum_list (map (\<lambda>c. case c of None \<Rightarrow> 0 | Some x \<Rightarrow> x) col)"

text \<open>
  Lines 191 and 192 (and 146, 147): the overall rate, guarded against a zero total.
\<close>

definition utilization_rate :: "rat \<Rightarrow> rat \<Rightarrow> rat" where
  "utilization_rate total_budgeted total_remaining =
     (if 0 < total_budgeted
      then (total_budgeted - total_remaining) / total_budgeted * 100
      else 0)"

text \<open>
  Lines 195 and 196: one row of
  \<^verbatim>\<open>((data['Budgeted'] - data['Remaining']) / data['Budgeted'] * 100).round(1)\<close>,
  and the whole column.
\<close>

definition row_utilization :: "rat option \<Rightarrow> rat option \<Rightarrow> pyfloat" where
  "row_utilization b r = pf_round1 (pf_scale (cell_div (cell_sub b r) b) 100)"

definition per_row_utilization :: "rat option list \<Rightarrow> rat option list \<Rightarrow> pyfloat list" where
  "per_row_utilization bs rs = map (\<lambda>(b, r). row_utilization b r) (zip bs rs)"

text \<open>
  Lines 199 and 244: the labels of the rows kept by
  \<^verbatim>\<open>data[data['Task'] != 'TOTALS'] if 'Task' in data.columns else data\<close>.
\<close>

definition non_total_labels :: "dataframe \<Rightarrow> nat list" where
  "non_total_labels df =
     (case Task df of
        Some ts \<Rightarrow> [i \<leftarrow> [0..<nrows df]. ts ! i \<noteq> ''TOTALS'']
      | None \<Rightarrow> [0..<nrows df])"

text \<open>
  \<^verbatim>\<open>Series.idxmax()\<close> and \<^verbatim>\<open>Series.idxmin()\<close> on the labelled values: NaN is skipped and
  the first of several best values wins. There is no label when every value is NaN.
\<close>

fun first_best ::
  "(pyfloat \<Rightarrow> pyfloat \<Rightarrow> bool) \<Rightarrow> (nat \<times> pyfloat) option \<Rightarrow> (nat \<times> pyfloat) list
     \<Rightarrow> (nat \<times> pyfloat) option" where
  "first_best better best [] = best"
| "first_best better best ((i, v) # xs) =
     first_best better
       (if v = NaN then best
        else (case best of
                None \<Rightarrow> Some (i, v)
              | Some (j, w) \<Rightarrow> if better v w then Some (i, v) else best))
       xs"

definition idxmax :: "(nat \<times> pyfloat) list \<Rightarrow> nat option" where
  "idxmax xs = map_option fst (first_best (\<lambda>v w. pf_less w v) None xs)"

definition idxmin :: "(nat \<times> pyfloat) list \<Rightarrow> nat option" where
  "idxmin xs = map_option fst (first_best (\<lambda>v w. pf_less v w) None xs)"

text \<open>The exceptions that leave \<^verbatim>\<open>generate_report\<close> uncaught.\<close>

datatype error =
    KeyError string
  | AllNaN
  | OverflowError

text \<open>The four default statements of lines 215 to 220.\<close>

definition generic_key_points :: "string list" where
  "generic_key_points =
     [''Budget tracking is current and accurate'',
      ''All expenditures are within approved parameters'',
      ''Financial controls are operating effectively'',
      ''Regular monitoring continues as scheduled'']"

text \<open>The four sentences of lines 206 to 211.\<close>

definition insight_sentences ::
  "rat \<Rightarrow> string \<Rightarrow> pyfloat \<Rightarrow> string \<Rightarrow> pyfloat \<Rightarrow> rat \<Rightarrow> string list" where
  "insight_sentences rate highest_task highest_util lowest_task lowest_util total_remaining =
     [''Overall budget utilization stands at '' @ fmt_fixed False 1 rate @ ''%'',
      ''Highest utilization: '' @ highest_task @ '' at '' @ pf_fmt1 highest_util @ ''%'',
      ''Lowest utilization: '' @ lowest_task @ '' at '' @ pf_fmt1 lowest_util @ ''%'',
      ''Total remaining funds: $'' @ fmt_fixed True 0 total_remaining]"

text \<open>
  Lines 195 to 220 of \<^verbatim>\<open>add_key_points\<close>, from the numbers that the arithmetic of lines
  189 to 196 has produced: the overall rate, the total of the remaining funds and the
  column of the per-row rates. The result is the frame after the column assignment and the
  final value of \<^verbatim>\<open>key_points\<close>. When every kept row has a NaN rate, pandas finds no
  label (\<open>AllNaN\<close>: a \<^verbatim>\<open>ValueError\<close> of \<^verbatim>\<open>idxmax\<close> or a \<^verbatim>\<open>KeyError\<close> of \<^verbatim>\<open>.loc\<close>, by
  version); without a Task column the first sentence that names the task raises
  \<^verbatim>\<open>KeyError\<close>.
\<close>

definition select_key_points ::
  "dataframe \<Rightarrow> rat \<Rightarrow> rat \<Rightarrow> pyfloat list \<Rightarrow> error + (dataframe \<times> string list)" where
  "select_key_points df rate total_remaining util =
     (let df' = df\<lparr>Utilization := Some util\<rparr>
      in if 1 < nrows df'
         then (let non_total = non_total_labels df'
               in if 0 < length non_total
                  then (case (idxmax (map (\<lambda>i. (i, util ! i)) non_total),
                              idxmin (map (\<lambda>i. (i, util ! i)) non_total)) of
                          (Some hi, Some lo) \<Rightarrow>
                            (case Task df' of
                               None \<Rightarrow> Inl (KeyError ''Task'')
                             | Some ts \<Rightarrow>
                                 Inr (df', insight_sentences rate (ts ! hi) (util ! hi)
                                             (ts ! lo) (util ! lo) total_remaining))
                        | _ \<Rightarrow> Inl AllNaN)
                  else Inr (df', generic_key_points))
         else Inr (df', generic_key_points))"

text \<open>
  Lines 188 to 220, for a frame that has both numeric columns: the arithmetic of lines
  189 to 196, then the selection above.
\<close>

definition computed_key_points ::
  "dataframe \<Rightarrow> rat option list \<Rightarrow> rat option list \<Rightarrow> error + (dataframe \<times> string list)" where
  "computed_key_points df bs rs =
     (let total_budgeted = column_sum bs;
          total_remaining = column_sum rs;
          rate = utilization_rate total_budgeted total_remaining;
          util = per_row_utilization bs rs
      in select_key_points df rate total_remaining util)"



text \<open>
  Lines 187 to 220: the same for any state of \<^verbatim>\<open>self.data\<close>. Without data, or without
  one of the two columns, nothing is computed and the default statements are used.
\<close>

definition key_points_of :: "dataframe option \<Rightarrow> error + (dataframe option \<times> string list)" where
  "key_points_of d =
     (case d of
        None \<Rightarrow> Inr (None, generic_key_points)
      | Some df \<Rightarrow>
         (case (Budgeted df, Remaining df) of
            (Some bs, Some rs) \<Rightarrow>
              (case computed_key_points df bs rs of
                 Inl err \<Rightarrow> Inl err
               | Inr (df', key_points) \<Rightarrow> Inr (Some df', key_points))
          | _ \<Rightarrow> Inr (Some df, generic_key_points)))"

subsection \<open>The generator and its sections\<close>

text \<open>
  The fields of a \<^verbatim>\<open>ReportGenerator\<close>. The document is the list of blocks appended so
  far; the sections are only ever run by \<^verbatim>\<open>generate_report\<close>, after \<^verbatim>\<open>create_document\<close>.
\<close>

record generator =
  excel_file :: string
  output_file :: path
  document :: "block list"
  data :: "dataframe option"

text \<open>The state of matplotlib's \<^verbatim>\<open>pyplot\<close> module: interactive mode and the figures held open.\<close>

record pyplot =
  interactive :: bool
  open_figures :: nat

text \<open>
  Which call of the chart code raises, if any: \<^verbatim>\<open>DataFrame.plot\<close> while it selects the
  data and before it has made a figure, a \<^verbatim>\<open>pyplot\<close> call on the new figure up to and
  including \<^verbatim>\<open>savefig\<close>, or \<^verbatim>\<open>add_picture\<close>.
\<close>

datatype chart_fault = NoFault | PlotRaises | SavefigRaises | AddPictureRaises

text \<open>
  The outside world of one run: the override files, what \<^verbatim>\<open>pd.read_excel\<close> returns for a
  file name (\<open>None\<close> when it raises), the clock, the report files that exist, the fault of
  the chart back end, and whether \<^verbatim>\<open>Document.save\<close> succeeds.
\<close>

record env =
  override_files :: "string \<Rightarrow> file_state"
  excel :: "string \<Rightarrow> dataframe option"
  clock :: datetime
  existing :: "path set"
  fault :: chart_fault
  save_ok :: bool

text \<open>\<^verbatim>\<open>ReportGenerator.__init__\<close>.\<close>

definition init :: "env \<Rightarrow> string \<Rightarrow> string option \<Rightarrow> generator" where
  "init e input output_arg =
     \<lparr>excel_file = input,
      output_file = init_output_file (existing e) (clock e) output_arg,
      document = [],
      data = None\<rparr>"

text \<open>\<^verbatim>\<open>load_data\<close>: both \<^verbatim>\<open>except\<close> clauses return \<^verbatim>\<open>False\<close>.\<close>

definition load_data :: "env \<Rightarrow> generator \<Rightarrow> bool \<times> generator" where
  "load_data e g =
     (case excel e (excel_file g) of
        Some df \<Rightarrow> (True, g\<lparr>data := Some df\<rparr>)
      | None \<Rightarrow> (False, g))"

definition create_document :: "env \<Rightarrow> generator \<Rightarrow> generator" where
  "create_document e g =
     g\<lparr>document := [Heading (''Budget Report - '' @ strftime_BdY (clock e)) 0]\<rparr>"

definition default_intro :: "datetime \<Rightarrow> string" where
  "default_intro t =
     ''This report provides a comprehensive overview of budget allocation and expenditure status as of ''
     @ strftime_BdY t @ ''.'' @ [nl, nl]
     @ ''Key metrics include budget utilization rates, remaining fund allocation, and project-specific financial performance indicators.''"

definition add_introduction :: "env \<Rightarrow> generator \<Rightarrow> generator" where
  "add_introduction e g =
     (let doc = document g @ [Heading ''Executive Summary'' 1]
      in g\<lparr>document :=
             add_markdown_content (override_files e) ''introduction.md''
               (Some (default_intro (clock e))) doc\<rparr>)"

text \<open>
  Lines 171 to 175: the text of one table cell. A number with no fractional part is
  printed without decimals, any other with two; \<^verbatim>\<open>int(cell_value)\<close> raises on an
  infinity; NaN and text go through \<^verbatim>\<open>str\<close>.
\<close>

definition number_text :: "rat \<Rightarrow> string" where
  "number_text v = (if v = of_int \<lfloor>v\<rfloor> then fmt_fixed True 0 v else fmt_fixed True 2 v)"

definition cell_text :: "rat option \<Rightarrow> string" where
  "cell_text c = (case c of None \<Rightarrow> ''nan'' | Some v \<Rightarrow> number_text v)"

definition float_text :: "pyfloat \<Rightarrow> error + string" where
  "float_text v =
     (case v of
        Fin x \<Rightarrow> Inr (number_text x)
      | NaN \<Rightarrow> Inr ''nan''
      | PosInf \<Rightarrow> Inl OverflowError
      | NegInf \<Rightarrow> Inl OverflowError)"

text \<open>All results of a list, or the first error.\<close>

fun sequence :: "(error + 'a) list \<Rightarrow> error + 'a list" where
  "sequence [] = Inr []"
| "sequence (x # xs) =
     (case x of
        Inl err \<Rightarrow> Inl err
      | Inr v \<Rightarrow> (case sequence xs of Inl err \<Rightarrow> Inl err | Inr vs \<Rightarrow> Inr (v # vs)))"

text \<open>The names of the columns of a frame, and the cell texts of row \<open>i\<close>, in column order.\<close>

definition column_names :: "dataframe \<Rightarrow> string list" where
  "column_names df =
     (if Task df = None then [] else [''Task''])
     @ (if Budgeted df = None then [] else [''Budgeted''])
     @ (if Remaining df = None then [] else [''Remaining''])
     @ (if Utilization df = None then [] else [''Utilization%''])"

definition row_texts :: "dataframe \<Rightarrow> nat \<Rightarrow> error + string list" where
  "row_texts df i =
     sequence
       ((case Task df of None \<Rightarrow> [] | Some ts \<Rightarrow> [Inr (ts ! i)])
        @ (case Budgeted df of None \<Rightarrow> [] | Some bs \<Rightarrow> [Inr (cell_text (bs ! i))])
        @ (case Remaining df of None \<Rightarrow> [] | Some rs \<Rightarrow> [Inr (cell_text (rs ! i))])
        @ (case Utilization df of None \<Rightarrow> [] | Some us \<Rightarrow> [float_text (us ! i)]))"

text \<open>Lines 142 to 149: the totals, the rate and the summary sentence.\<close>

definition column_total :: "rat option list option \<Rightarrow> rat" where
  "column_total col = (case col of Some xs \<Rightarrow> column_sum xs | None \<Rightarrow> 0)"

definition summary_text :: "dataframe \<Rightarrow> string" where
  "summary_text df =
     (let total_budgeted = column_total (Budgeted df);
          total_remaining = column_total (Remaining df);
          rate = utilization_rate total_budgeted total_remaining
      in ''Total Budget: $'' @ fmt_fixed True 0 total_budgeted
         @ '' | Utilization Rate: '' @ fmt_fixed False 1 rate
         @ ''% | Remaining: $'' @ fmt_fixed True 0 total_remaining)"

text \<open>\<^verbatim>\<open>add_budget_table\<close>.\<close>

definition add_budget_table :: "generator \<Rightarrow> error + (bool \<times> generator)" where
  "add_budget_table g =
     (case data g of
        None \<Rightarrow> Inr (False, g)
      | Some df \<Rightarrow>
          (case sequence (map (row_texts df) [0..<nrows df]) of
             Inl err \<Rightarrow> Inl err
           | Inr rows \<Rightarrow>
               Inr (True,
                    g\<lparr>document := document g
                       @ [Heading ''Budget Allocation Details'' 1,
                          Paragraph (summary_text df),
                          Table (column_names df # rows)]\<rparr>)))"

text \<open>\<^verbatim>\<open>add_key_points\<close>.\<close>

definition add_key_points :: "env \<Rightarrow> generator \<Rightarrow> error + generator" where
  "add_key_points e g =
     (let doc = document g @ [Heading ''Key Findings'' 1]
      in case key_points_of (data g) of
           Inl err \<Rightarrow> Inl err
         | Inr (d, key_points) \<Rightarrow>
             (let default_key_points = join [nl] (map (\<lambda>point. ''- '' @ point) key_points)
              in Inr (g\<lparr>data := d,
                        document :=
                          add_markdown_content (override_files e) ''key_points.md''
                            (Some default_key_points) doc\<rparr>)))"

text \<open>
  \<^verbatim>\<open>add_budget_chart\<close>. A successful \<^verbatim>\<open>DataFrame.plot\<close> opens a figure; \<^verbatim>\<open>plt.close()\<close>
  closes it. The \<^verbatim>\<open>except\<close> clause only prints and returns \<^verbatim>\<open>False\<close>.
\<close>

definition chart_desc :: string where
  "chart_desc = ''The chart below provides a visual comparison of budgeted amounts versus remaining funds for each project component.''"

definition add_budget_chart :: "env \<Rightarrow> generator \<Rightarrow> pyplot \<Rightarrow> bool \<times> generator \<times> pyplot" where
  "add_budget_chart e g plt =
     (case data g of
        None \<Rightarrow> (False, g, plt)
      | Some df \<Rightarrow>
          (let doc = document g @ [Heading ''Budget Visualization'' 1];
               g1 = g\<lparr>document :=
                       add_markdown_content (override_files e) ''chart_description.md''
                         (Some chart_desc) doc\<rparr>;
               plt1 = plt\<lparr>interactive := False\<rparr>
           in if fault e = PlotRaises then (False, g1, plt1)
              else (let plt2 = plt1\<lparr>open_figures := open_figures plt1 + 1\<rparr>
                    in if fault e = SavefigRaises then (False, g1, plt2)
                       else if fault e = AddPictureRaises then (False, g1, plt2)
                       else (let g2 = g1\<lparr>document := document g1 @ [Picture ''budget_chart.png'']\<rparr>;
                                 plt3 = plt2\<lparr>open_figures := open_figures plt2 - 1\<rparr>
                             in (True, g2, plt3)))))"

text \<open>\<^verbatim>\<open>save_document\<close>: the exception of a failed save is caught.\<close>

definition save_document :: "env \<Rightarrow> generator \<Rightarrow> bool" where
  "save_document e g = save_ok e"

text \<open>
  \<^verbatim>\<open>generate_report\<close>. The values returned by \<^verbatim>\<open>add_budget_table\<close> and
  \<^verbatim>\<open>add_budget_chart\<close> are dropped (lines 314 and 316).
\<close>

definition generate_report :: "env \<Rightarrow> generator \<Rightarrow> pyplot \<Rightarrow> error + (bool \<times> generator \<times> pyplot)" where
  "generate_report e g plt =
     (case load_data e g of
        (False, g0) \<Rightarrow> Inr (False, g0, plt)
      | (True, g0) \<Rightarrow>
          (let g1 = create_document e g0;
               g2 = add_introduction e g1
           in case add_budget_table g2 of
                Inl err \<Rightarrow> Inl err
              | Inr (table_added, g3) \<Rightarrow>
                  (case add_key_points e g3 of
                     Inl err \<Rightarrow> Inl err
                   | Inr g4 \<Rightarrow>
                       (case add_budget_chart e g4 plt of
                          (chart_added, g5, plt') \<Rightarrow>
                            (let success = save_document e g5
                             in Inr (success, g5, plt'))))))"

text \<open>\<^verbatim>\<open>main\<close>: the exit code.\<close>

definition main :: "env \<Rightarrow> string \<Rightarrow> string option \<Rightarrow> pyplot \<Rightarrow> error + nat" where
  "main e input output_arg plt =
     (let generator = init e input output_arg
      in case generate_report e generator plt of
           Inl err \<Rightarrow> Inl err
         | Inr (success, g, plt') \<Rightarrow> Inr (if success then 0 else 1))"

subsection \<open>Concrete inputs\<close>

text \<open>A report of 25 January 2025 in the reports directory, and a clock at noon that day.\<close>

definition report_path :: path where
  "report_path = \<lparr>parent = ''reports'', name = ''project_report_2025-01-25.docx''\<rparr>"

definition noon :: datetime where
  "noon = \<lparr>year = 2025, month = 1, day = 25, hour = 12, minute = 0, second = 0\<rparr>"

text \<open>A report under a name chosen by the caller.\<close>

definition custom_report :: path where
  "custom_report = \<lparr>parent = ''reports'', name = ''report.docx''\<rparr>"

text \<open>
  Override files: none at all; an introduction that is a list of two bullets; one that
  cannot be read; one that holds only white space.
\<close>

definition no_files :: "string \<Rightarrow> file_state" where
  "no_files f = Absent"

definition intro_bullets :: "string \<Rightarrow> file_state" where
  "intro_bullets f =
     (if f = ''introduction.md'' then Content (''- Scope'' @ [nl] @ ''* Costs'' @ [nl]) else Absent)"

definition intro_unreadable :: "string \<Rightarrow> file_state" where
  "intro_unreadable f = (if f = ''introduction.md'' then Unreadable else Absent)"

definition intro_blank :: "string \<Rightarrow> file_state" where
  "intro_blank f = (if f = ''introduction.md'' then Content ('' '' @ [nl, nl] @ ''  '') else Absent)"

text \<open>A paragraph group whose first line is a bullet and whose second line is not.\<close>

definition mixed_group :: string where
  "mixed_group = ''- Scope'' @ [nl] @ ''Costs are rising''"

text \<open>A paragraph group whose first line is prose and whose second line is a bullet.\<close>

definition prose_group :: string where
  "prose_group = ''Costs are rising'' @ [nl] @ ''- Scope''"

text \<open>
  The table of scenario A; a table with a task that has no budget; a table with one task
  and its totals row.
\<close>

definition scenario_A :: dataframe where
  "scenario_A =
     \<lparr>nrows = 3,
      Task = Some [''Design'', ''Build'', ''TOTALS''],
      Budgeted = Some [Some 1000, Some 2000, Some 3000],
      Remaining = Some [Some 200, Some 500, Some 700],
      Utilization = None\<rparr>"

definition unfunded_frame :: dataframe where
  "unfunded_frame =
     \<lparr>nrows = 2,
      Task = Some [''Design'', ''Travel''],
      Budgeted = Some [Some 1000, Some 0],
      Remaining = Some [Some 200, Some 0],
      Utilization = None\<rparr>"



text \<open>
  A run on the table of scenario A in which \<^verbatim>\<open>savefig\<close> raises and the document is
  saved; the generator once the table is loaded; a \<^verbatim>\<open>pyplot\<close> module with no figure open.
\<close>

definition budget_sheet :: "string \<Rightarrow> dataframe option" where
  "budget_sheet f = (if f = ''budget.xlsx'' then Some scenario_A else None)"

definition savefig_fails :: env where
  "savefig_fails =
     \<lparr>override_files = no_files,
      excel = budget_sheet,
      clock = noon,
      existing = {},
      fault = SavefigRaises,
      save_ok = True\<rparr>"

definition loaded_generator :: generator where
  "loaded_generator =
     \<lparr>excel_file = ''budget.xlsx'',
      output_file = report_path,
      document = [],
      data = Some scenario_A\<rparr>"

definition idle_pyplot :: pyplot where
  "idle_pyplot = \<lparr>interactive = True, open_figures = 0\<rparr>"




section \<open>FileNamer\<close>

text \<open>
  The loop started at any counter up to 100 returns the first free versioned candidate
  from that counter on, and the time-stamped candidate when there is none.
\<close>

lemma version_loop_find:
  "counter \<le> 100 \<Longrightarrow>
   version_loop fs now (parent base) (stem base) (suffix base) counter =
     (case find (\<lambda>p. p \<notin> fs) (map (versioned base) [counter..<101]) of
        Some p \<Rightarrow> p
      | None \<Rightarrow> timestamped now base)"
proof (induction "100 - counter" arbitrary: counter)
  case 0
  then have c: "counter = 100" by simp
  have "[100..<101] = [100::nat]" by (simp add: upt_rec)
  then show ?case
    unfolding c by (subst version_loop.simps) (simp add: versioned_def timestamped_def Let_def)
next
  case (Suc d)
  then have lt: "counter < 100" and d: "d = 100 - Suc counter" by simp_all
  have up: "[counter..<101] = counter # [Suc counter..<101]"
    using lt by (simp add: upt_rec)
  have ih: "version_loop fs now (parent base) (stem base) (suffix base) (Suc counter) =
     (case find (\<lambda>p. p \<notin> fs) (map (versioned base) [Suc counter..<101]) of
        Some p \<Rightarrow> p
      | None \<Rightarrow> timestamped now base)"
    using Suc.hyps(1)[OF d] lt by simp
  show ?case
    using lt ih unfolding up
    by (subst version_loop.simps) (simp add: versioned_def Let_def)
qed

lemma get_unique_filename_refines: "get_unique_filename fs now base = resolve_spec fs now base"
  by (simp add: get_unique_filename_def resolve_spec_def probes_def version_loop_find
        del: upt_rec_numeral)

lemma probes_length: "length (probes base) = 100"
  by (simp add: probes_def del: upt_rec_numeral)

lemma digit_char_not_v: "d < 10 \<Longrightarrow> digit_char d \<noteq> CHR ''v''"
proof -
  assume "d < 10"
  then have "d \<in> {0,1,2,3,4,5,6,7,8,9}" by auto
  then show ?thesis by (auto simp: digit_char_def)
qed

lemma str_nat_head: "str_nat n \<noteq> [] \<and> hd (str_nat n) \<noteq> CHR ''v''"
proof (induction n rule: str_nat.induct)
  case (1 n)
  show ?case
  proof (cases "n < 10")
    case True
    then show ?thesis by (subst (1 2) str_nat.simps) (simp add: digit_char_not_v)
  next
    case False
    with 1 show ?thesis by (subst (1 2) str_nat.simps) simp
  qed
qed

lemma pad2_head: "pad2 n \<noteq> [] \<and> hd (pad2 n) \<noteq> CHR ''v''"
  using str_nat_head[of n] by (simp add: pad2_def)

lemma strftime_HMS_head: "strftime_HMS t \<noteq> [] \<and> hd (strftime_HMS t) \<noteq> CHR ''v''"
  using pad2_head[of "hour t"] by (simp add: strftime_HMS_def)

lemma stem_suffix: "stem p @ suffix p = name p"
  by (simp add: stem_def suffix_def split: option.split)

lemma timestamped_not_base: "timestamped now base \<noteq> base"
proof
  assume "timestamped now base = base"
  then have "name (timestamped now base) = name base" by simp
  then have "length (stem base @ ''_'' @ strftime_HMS now @ suffix base) = length (stem base @ suffix base)"
    by (simp add: timestamped_def stem_suffix)
  then show False by simp
qed

lemma timestamped_not_versioned: "timestamped now base \<noteq> versioned base k"
proof
  assume "timestamped now base = versioned base k"
  then have "name (timestamped now base) = name (versioned base k)" by simp
  then have "strftime_HMS now @ suffix base = ''v'' @ str_nat k @ suffix base"
    by (simp add: timestamped_def versioned_def)
  then have "hd (strftime_HMS now @ suffix base) = CHR ''v''" by simp
  then show False using strftime_HMS_head[of now] by simp
qed

lemma timestamped_not_probe: "timestamped now base \<notin> set (probes base)"
  by (auto simp: probes_def timestamped_not_base timestamped_not_versioned simp del: upt_rec_numeral)

lemma resolve_spec_fallback_iff:
  "(resolve_spec fs now base = timestamped now base) = (\<forall>p \<in> set (probes base). p \<in> fs)"
proof (cases "find (\<lambda>p. p \<notin> fs) (probes base)")
  case None
  have "\<forall>p \<in> set (probes base). p \<in> fs"
    using None by (simp add: find_None_iff)
  then show ?thesis using None by (simp add: resolve_spec_def)
next
  case (Some p)
  then have "p \<in> set (probes base)" "p \<notin> fs"
    by (auto simp: find_Some_iff)
  moreover have "resolve_spec fs now base = p"
    using Some by (simp add: resolve_spec_def)
  ultimately show ?thesis using timestamped_not_probe[of now base]
    by auto
qed

lemma resolve_spec_free:
  assumes "\<exists>p \<in> set (probes base). p \<notin> fs"
  shows "resolve_spec fs now base \<notin> fs \<and> resolve_spec fs now base \<in> set (probes base)"
proof (cases "find (\<lambda>p. p \<notin> fs) (probes base)")
  case None
  then have "\<forall>p \<in> set (probes base). p \<in> fs"
    by (simp add: find_None_iff)
  with assms show ?thesis by blast
next
  case (Some p)
  then have "p \<in> set (probes base)" "p \<notin> fs"
    by (auto simp: find_Some_iff)
  moreover have "resolve_spec fs now base = p"
    using Some by (simp add: resolve_spec_def)
  ultimately show ?thesis by simp
qed

lemma probes_nth:
  "i < 100 \<Longrightarrow> probes base ! i = (if i = 0 then base else versioned base (i + 1))"
  by (cases i) (simp_all add: probes_def del: upt_rec_numeral)

lemma resolve_spec_versioned:
  assumes "base \<in> fs" "2 \<le> k" "k \<le> 100" "\<forall>j. 2 \<le> j \<and> j < k \<longrightarrow> versioned base j \<in> fs"
    "versioned base k \<notin> fs"
  shows "resolve_spec fs now base = versioned base k"
proof -
  have "find (\<lambda>p. p \<notin> fs) (probes base) = Some (versioned base k)"
    unfolding find_Some_iff
  proof (intro exI[of _ "k - 1"] conjI allI impI)
    show "k - 1 < length (probes base)" using assms(2,3) by (simp add: probes_length)
    show "probes base ! (k - 1) \<notin> fs" using assms(2,3,5) by (simp add: probes_nth)
    show "versioned base k = probes base ! (k - 1)" using assms(2,3) by (simp add: probes_nth)
  next
    fix j assume "j < k - 1"
    then show "\<not> probes base ! j \<notin> fs"
      using assms(1,3,4) by (simp add: probes_nth)
  qed
  then show ?thesis by (simp add: resolve_spec_def)
qed

lemma probes_set: "set (probes base) = insert base (versioned base ` {2..100})"
proof -
  have "{2..<101} = {2..100::nat}" by auto
  then show ?thesis by (simp add: probes_def del: upt_rec_numeral)
qed

text \<open>
  C7. For every base path the resolver returns the base path unchanged when no file exists
  there; otherwise the first of the candidates \<^verbatim>\<open>{stem}_v2{ext}\<close>, \<^verbatim>\<open>{stem}_v3{ext}\<close>, ...
  that does not exist; and it returns the candidate suffixed with the time of day (hours,
  minutes, seconds) exactly when all 100 probes, the base path and versions 2 to 100, found
  a file.
\<close>

theorem get_unique_filename_probes:
  "(base \<notin> fs \<longrightarrow> get_unique_filename fs now base = base)
   \<and> (\<forall>k. base \<in> fs \<and> 2 \<le> k \<and> k \<le> 100
          \<and> (\<forall>j. 2 \<le> j \<and> j < k \<longrightarrow> versioned base j \<in> fs)
          \<and> versioned base k \<notin> fs
        \<longrightarrow> get_unique_filename fs now base = versioned base k)
   \<and> ((get_unique_filename fs now base = timestamped now base)
        = (base \<in> fs \<and> (\<forall>k. 2 \<le> k \<and> k \<le> 100 \<longrightarrow> versioned base k \<in> fs)))
   \<and> length (probes base) = 100
   \<and> get_unique_filename fs now base = resolve_spec fs now base"
proof (intro conjI allI impI)
  show "base \<notin> fs \<Longrightarrow> get_unique_filename fs now base = base"
    by (simp add: get_unique_filename_def)
  show "length (probes base) = 100" by (rule probes_length)
  show "get_unique_filename fs now base = resolve_spec fs now base"
    by (rule get_unique_filename_refines)
  show "(get_unique_filename fs now base = timestamped now base)
        = (base \<in> fs \<and> (\<forall>k. 2 \<le> k \<and> k \<le> 100 \<longrightarrow> versioned base k \<in> fs))"
    unfolding get_unique_filename_refines resolve_spec_fallback_iff probes_set by auto
next
  fix k
  assume "base \<in> fs \<and> 2 \<le> k \<and> k \<le> 100
          \<and> (\<forall>j. 2 \<le> j \<and> j < k \<longrightarrow> versioned base j \<in> fs)
          \<and> versioned base k \<notin> fs"
  then show "get_unique_filename fs now base = versioned base k"
    unfolding get_unique_filename_refines by (intro resolve_spec_versioned) simp_all
qed

lemma report_v2: "versioned report_path 2 = \<lparr>parent = ''reports'', name = ''project_report_2025-01-25_v2.docx''\<rparr>"
  by code_simp
lemma report_v3: "versioned report_path 3 = \<lparr>parent = ''reports'', name = ''project_report_2025-01-25_v3.docx''\<rparr>"
  by code_simp
lemma report_timestamped: "timestamped noon report_path = \<lparr>parent = ''reports'', name = ''project_report_2025-01-25_120000.docx''\<rparr>"
  by code_simp

theorem get_unique_filename_probes_witness:
  "get_unique_filename {} noon report_path = report_path
   \<and> get_unique_filename {report_path, versioned report_path 2} noon report_path
       = \<lparr>parent = ''reports'', name = ''project_report_2025-01-25_v3.docx''\<rparr>
   \<and> get_unique_filename (set (probes report_path)) noon report_path
       = \<lparr>parent = ''reports'', name = ''project_report_2025-01-25_120000.docx''\<rparr>"
proof (intro conjI)
  show "get_unique_filename {} noon report_path = report_path"
    using get_unique_filename_probes[of report_path "{}" noon] by simp
  let ?F = "{report_path, versioned report_path 2}"
  have free: "versioned report_path 3 \<notin> ?F"
    unfolding report_v2 report_v3 by (simp add: report_path_def)
  have below: "\<forall>j::nat. 2 \<le> j \<and> j < 3 \<longrightarrow> versioned report_path j \<in> ?F"
  proof (intro allI impI)
    fix j :: nat
    assume "2 \<le> j \<and> j < 3"
    then have "j = 2" by arith
    then show "versioned report_path j \<in> ?F" by simp
  qed
  have "\<forall>k. report_path \<in> ?F \<and> 2 \<le> k \<and> k \<le> 100
          \<and> (\<forall>j. 2 \<le> j \<and> j < k \<longrightarrow> versioned report_path j \<in> ?F)
          \<and> versioned report_path k \<notin> ?F
        \<longrightarrow> get_unique_filename ?F noon report_path = versioned report_path k"
    using get_unique_filename_probes[of report_path ?F noon] by (elim conjE)
  moreover have "report_path \<in> ?F" "(2::nat) \<le> 3" "(3::nat) \<le> 100" by simp_all
  ultimately have "get_unique_filename ?F noon report_path = versioned report_path 3"
    using free below by blast
  then show "get_unique_filename ?F noon report_path
       = \<lparr>parent = ''reports'', name = ''project_report_2025-01-25_v3.docx''\<rparr>"
    by (simp only: report_v3)
  show "get_unique_filename (set (probes report_path)) noon report_path
       = \<lparr>parent = ''reports'', name = ''project_report_2025-01-25_120000.docx''\<rparr>"
    using get_unique_filename_probes[of report_path "set (probes report_path)" noon] report_timestamped
    by (simp add: probes_set)
qed

section \<open>The output path\<close>

text \<open>
  C4, as stated: every output name, a caller-supplied one included, gets collision-avoidance
  versioning, so that no existing report is overwritten. It fails for a caller-supplied
  name: with \<^verbatim>\<open>reports/report.docx\<close> on disk and \<^verbatim>\<open>--output report.docx\<close>, the path
  chosen is that very file.
\<close>

theorem custom_name_not_versioned:
  "init_output_file {custom_report} noon (Some ''report.docx'') \<in> {custom_report}"
  by (simp add: init_output_file_def custom_report_def reports_dir_def)

text \<open>
  C4, amended. Versioning is applied to the default name only. With no output name the path
  is the resolver's answer for \<^verbatim>\<open>reports/project_report_{date}.docx\<close>, which names no
  existing file as long as one of the 100 probes is free. A caller-supplied name that is a
  single path component is placed in the reports directory as it is, whatever exists
  there.
\<close>

theorem init_output_file_versioning:
  "init_output_file fs now None = get_unique_filename fs now (dated_report now)
   \<and> ((\<exists>p \<in> set (probes (dated_report now)). p \<notin> fs) \<longrightarrow> init_output_file fs now None \<notin> fs)
   \<and> (single_component custom
        \<longrightarrow> init_output_file fs now (Some custom) = \<lparr>parent = reports_dir, name = custom\<rparr>)"
proof (intro conjI impI)
  show eq: "init_output_file fs now None = get_unique_filename fs now (dated_report now)"
    by (simp add: init_output_file_def dated_report_def Let_def)
  show "init_output_file fs now (Some custom) = \<lparr>parent = reports_dir, name = custom\<rparr>"
    by (simp add: init_output_file_def)
  assume "\<exists>p \<in> set (probes (dated_report now)). p \<notin> fs"
  then show "init_output_file fs now None \<notin> fs"
    unfolding eq get_unique_filename_refines by (simp add: resolve_spec_free)
qed

lemma dated_report_noon: "dated_report noon = report_path"
  by code_simp

theorem init_output_file_versioning_witness:
  "(\<exists>p \<in> set (probes (dated_report noon)). p \<notin> {report_path})
   \<and> init_output_file {report_path} noon None \<notin> {report_path}
   \<and> single_component ''report.docx''
   \<and> init_output_file {custom_report} noon (Some ''report.docx'') = custom_report"
proof -
  have "versioned report_path 2 \<noteq> report_path"
    unfolding report_v2 by (simp add: report_path_def)
  moreover have "versioned report_path 2 \<in> set (probes report_path)"
    by (simp add: probes_set)
  ultimately have free: "\<exists>p \<in> set (probes (dated_report noon)). p \<notin> {report_path}"
    unfolding dated_report_noon by blast
  then have default: "init_output_file {report_path} noon None \<notin> {report_path}"
    using init_output_file_versioning[of "{report_path}" noon] by blast
  have one: "single_component ''report.docx''"
    by (simp add: single_component_def)
  then have "init_output_file {custom_report} noon (Some ''report.docx'')
      = \<lparr>parent = reports_dir, name = ''report.docx''\<rparr>"
    using init_output_file_versioning[of "{custom_report}" noon "''report.docx''"] by blast
  then have "init_output_file {custom_report} noon (Some ''report.docx'') = custom_report"
    by (simp add: custom_report_def reports_dir_def)
  with free default one show ?thesis by blast
qed

section \<open>ContentLoader\<close>

lemma strip_blank:
  assumes "\<forall>c \<in> set s. isspace c"
  shows "strip s = []"
proof -
  have blank: "dropWhile isspace s = []" using assms by simp
  show ?thesis unfolding strip_def lstrip_def rstrip_def blank by simp
qed

lemma read_absent: "files f = Absent \<or> files f = Unreadable \<Longrightarrow> read_markdown_file files f = None"
  by (auto simp: read_markdown_file_def)

lemma add_default:
  assumes "\<not> truthy (read_markdown_file files f)" "d \<noteq> []"
  shows "add_markdown_content files f (Some d) doc = doc @ markdown_blocks d"
  using assms by (simp add: add_markdown_content_def truthy_def Let_def)

lemma add_loaded:
  assumes "files f = Content s" "strip s \<noteq> []"
  shows "add_markdown_content files f dflt doc = doc @ markdown_blocks (strip s)"
  using assms by (simp add: add_markdown_content_def read_markdown_file_def truthy_def Let_def)

text \<open>
  C9. When the override file's loaded text is present and, once stripped, not empty, it is
  the text that is parsed into the section, whatever the default. When the file is absent,
  or exists and cannot be read, reading gives no text and raises nothing, and the default
  text is parsed instead.
\<close>

theorem override_or_default:
  "(files f = Content s \<and> strip s \<noteq> []
      \<longrightarrow> add_markdown_content files f dflt doc = doc @ markdown_blocks (strip s))
   \<and> (files f = Absent \<or> files f = Unreadable
      \<longrightarrow> read_markdown_file files f = None
          \<and> (\<forall>d. dflt = Some d \<and> d \<noteq> []
                \<longrightarrow> add_markdown_content files f dflt doc = doc @ markdown_blocks d))"
proof (intro conjI impI allI)
  assume "files f = Content s \<and> strip s \<noteq> []"
  then show "add_markdown_content files f dflt doc = doc @ markdown_blocks (strip s)"
    by (simp add: add_loaded)
next
  assume "files f = Absent \<or> files f = Unreadable"
  then show "read_markdown_file files f = None" by (rule read_absent)
next
  fix d
  assume "files f = Absent \<or> files f = Unreadable" and "dflt = Some d \<and> d \<noteq> []"
  then show "add_markdown_content files f dflt doc = doc @ markdown_blocks d"
    by (simp add: add_default read_absent truthy_def)
qed

lemma bullets_blocks: "markdown_blocks (strip (''- Scope'' @ [nl] @ ''* Costs'' @ [nl])) = [ListBullet ''Scope'', ListBullet ''Costs'']"
  by code_simp

lemma bullets_nonempty: "strip (''- Scope'' @ [nl] @ ''* Costs'' @ [nl]) \<noteq> []"
  by code_simp

lemma default_blocks: "markdown_blocks ''Default text'' = [Paragraph ''Default text'']"
  by code_simp

theorem override_or_default_witness:
  "add_markdown_content intro_bullets ''introduction.md'' (Some ''Default text'') []
     = [ListBullet ''Scope'', ListBullet ''Costs'']
   \<and> add_markdown_content no_files ''introduction.md'' (Some ''Default text'') []
     = [Paragraph ''Default text'']
   \<and> add_markdown_content intro_unreadable ''introduction.md'' (Some ''Default text'') []
     = [Paragraph ''Default text'']"
proof (intro conjI)
  have "intro_bullets ''introduction.md'' = Content (''- Scope'' @ [nl] @ ''* Costs'' @ [nl])"
    by (simp add: intro_bullets_def)
  then show "add_markdown_content intro_bullets ''introduction.md'' (Some ''Default text'') []
     = [ListBullet ''Scope'', ListBullet ''Costs'']"
    using override_or_default[of intro_bullets "''introduction.md''"
        "''- Scope'' @ [nl] @ ''* Costs'' @ [nl]" "Some ''Default text''" "[]"]
      bullets_blocks bullets_nonempty
    by simp
  have "no_files ''introduction.md'' = Absent" by (simp add: no_files_def)
  then show "add_markdown_content no_files ''introduction.md'' (Some ''Default text'') []
     = [Paragraph ''Default text'']"
    using override_or_default[of no_files "''introduction.md''" _ "Some ''Default text''" "[]"]
      default_blocks
    by simp
  have "intro_unreadable ''introduction.md'' = Unreadable" by (simp add: intro_unreadable_def)
  then show "add_markdown_content intro_unreadable ''introduction.md'' (Some ''Default text'') []
     = [Paragraph ''Default text'']"
    using override_or_default[of intro_unreadable "''introduction.md''" _ "Some ''Default text''" "[]"]
      default_blocks
    by simp
qed

text \<open>
  C10. An override file that holds nothing but white space is read as the empty text, and
  the section is then built exactly as for an absent file: from the default text.
\<close>

theorem blank_override_is_absent:
  "files f = Content s \<and> (\<forall>c \<in> set s. isspace c)
   \<longrightarrow> read_markdown_file files f = Some []
       \<and> add_markdown_content files f dflt doc = add_markdown_content (files(f := Absent)) f dflt doc
       \<and> (\<forall>d. dflt = Some d \<and> d \<noteq> []
             \<longrightarrow> add_markdown_content files f dflt doc = doc @ markdown_blocks d)"
proof (intro impI conjI allI)
  assume a: "files f = Content s \<and> (\<forall>c \<in> set s. isspace c)"
  then show r: "read_markdown_file files f = Some []"
    by (simp add: read_markdown_file_def strip_blank)
  have r': "read_markdown_file (files(f := Absent)) f = None"
    by (simp add: read_markdown_file_def)
  show "add_markdown_content files f dflt doc = add_markdown_content (files(f := Absent)) f dflt doc"
    by (simp add: add_markdown_content_def r r' truthy_def Let_def)
  fix d
  assume "dflt = Some d \<and> d \<noteq> []"
  then show "add_markdown_content files f dflt doc = doc @ markdown_blocks d"
    using r by (simp add: add_default truthy_def)
qed

theorem blank_override_is_absent_witness:
  "read_markdown_file intro_blank ''introduction.md'' = Some []
   \<and> add_markdown_content intro_blank ''introduction.md'' (Some ''Default text'') []
     = [Paragraph ''Default text'']"
proof -
  have c: "intro_blank ''introduction.md'' = Content ('' '' @ [nl, nl] @ ''  '')"
    by (simp add: intro_blank_def)
  have b: "\<forall>c \<in> set ('' '' @ [nl, nl] @ ''  ''). isspace c"
    by (simp add: isspace_def)
  have "read_markdown_file intro_blank ''introduction.md'' = Some []
      \<and> add_markdown_content intro_blank ''introduction.md'' (Some ''Default text'') []
          = [] @ markdown_blocks ''Default text''"
    using blank_override_is_absent[of intro_blank "''introduction.md''"
        "'' '' @ [nl, nl] @ ''  ''" "Some ''Default text''" "[]"] c b
    by blast
  then show ?thesis by (simp add: default_blocks)
qed

section \<open>The restricted markdown\<close>

text \<open>
  C5, as stated: a group is a bullet list exactly when every non-blank line of it starts
  with a marker, and a mixed group becomes one paragraph that keeps all its lines. It fails
  on a group whose first line is a bullet and whose second is prose: the group is not all
  bullets, yet it is parsed as a list, and the prose line is in no block.
\<close>

theorem mixed_group_loses_line:
  "\<not> every_line_marked mixed_group \<and> paragraph_blocks mixed_group = [ListBullet ''Scope'']"
  by code_simp

lemma split_lines_nonempty: "split_lines s \<noteq> []"
  by (induction s) (auto split: list.split)

lemma hd_split_lines: "hd (split_lines s) = takeWhile (\<lambda>c. c \<noteq> nl) s"
proof (induction s)
  case Nil
  show ?case by simp
next
  case (Cons c cs)
  then show ?case
    using split_lines_nonempty[of cs] by (cases "split_lines cs") auto
qed

lemma startswith_first_line:
  assumes "nl \<notin> set p"
  shows "startswith (takeWhile (\<lambda>c. c \<noteq> nl) s) p = startswith s p"
  using assms
proof (induction p arbitrary: s)
  case Nil
  show ?case by (simp add: startswith_def)
next
  case (Cons a p)
  show ?case
  proof (cases s)
    case Nil
    then show ?thesis by (simp add: startswith_def)
  next
    case (Cons b t)
    have ih: "startswith (takeWhile (\<lambda>c. c \<noteq> nl) t) p = startswith t p"
      using Cons.IH Cons.prems by simp
    have "a \<noteq> nl" using Cons.prems by auto
    then show ?thesis
      using ih unfolding Cons by (auto simp: startswith_def)
  qed
qed

lemma is_bullet_first_line: "is_bullet (hd (split_lines s)) = is_bullet s"
  by (simp add: is_bullet_def hd_split_lines startswith_first_line)

lemma comprehension_filter:
  "concat (map (\<lambda>x. if P x then [f x] else []) xs) = map f (filter P xs)"
  by (induction xs) simp_all

text \<open>
  C5, amended. A group that is empty once stripped adds nothing. A group is parsed as a
  bullet list exactly when the first line of its stripped text begins with \<^verbatim>\<open>- \<close> or
  \<^verbatim>\<open>* \<close>: it then gives one item for each line whose stripped text begins with such a
  marker (the stripped line without its first two characters) and nothing for its other
  lines. Any other group is a single paragraph holding the stripped raw text of the group,
  internal line feeds included.
\<close>

theorem parse_group:
  "(strip g = [] \<longrightarrow> paragraph_blocks g = [])
   \<and> (strip g \<noteq> [] \<and> is_bullet (hd (split_lines (strip g)))
        \<longrightarrow> paragraph_blocks g
            = map (ListBullet \<circ> drop 2 \<circ> strip) (filter (is_bullet \<circ> strip) (split_lines (strip g))))
   \<and> (strip g \<noteq> [] \<and> \<not> is_bullet (hd (split_lines (strip g)))
        \<longrightarrow> paragraph_blocks g = [Paragraph (strip g)])"
  by (simp add: paragraph_blocks_def is_bullet_first_line Let_def comp_def comprehension_filter)

lemma mixed_group_eval:
  "strip mixed_group \<noteq> []" "is_bullet (hd (split_lines (strip mixed_group)))"
  "map (ListBullet \<circ> drop 2 \<circ> strip) (filter (is_bullet \<circ> strip) (split_lines (strip mixed_group)))
     = [ListBullet ''Scope'']"
  by code_simp+

lemma prose_group_eval:
  "strip prose_group \<noteq> []" "\<not> is_bullet (hd (split_lines (strip prose_group)))"
  "strip prose_group = ''Costs are rising'' @ [nl] @ ''- Scope''"
  by code_simp+

theorem parse_group_witness:
  "paragraph_blocks mixed_group = [ListBullet ''Scope'']
   \<and> paragraph_blocks prose_group = [Paragraph (''Costs are rising'' @ [nl] @ ''- Scope'')]
   \<and> paragraph_blocks [nl] = []"
proof (intro conjI)
  show "paragraph_blocks mixed_group = [ListBullet ''Scope'']"
    using parse_group[of mixed_group] mixed_group_eval by simp
  show "paragraph_blocks prose_group = [Paragraph (''Costs are rising'' @ [nl] @ ''- Scope'')]"
    using parse_group[of prose_group] prose_group_eval by simp
  have "strip [nl] = []" by code_simp
  then show "paragraph_blocks [nl] = []"
    using parse_group[of "[nl]"] by simp
qed

section \<open>Analyzer\<close>

subsection \<open>Evaluation of numbers and their formats\<close>

lemma floor_rat_numeral: "\<lfloor>numeral a / numeral b :: rat\<rfloor> = numeral a div numeral b"
  by (metis floor_divide_of_int_eq of_int_numeral)

lemmas fmt_eval =
  pf_fmt1_def fmt_fixed_def Let_def round_half_even_def floor_rat_numeral
  str_nat.simps digit_char_def commas.simps

lemmas row_eval =
  per_row_utilization_def row_utilization_def cell_sub_def cell_div_def pf_scale_def
  pf_round1_def round_half_even_def Let_def floor_rat_numeral

subsection \<open>The key points\<close>

lemma non_total_labels_update:
  "non_total_labels (df\<lparr>Utilization := u\<rparr>) = non_total_labels df"
  by (simp add: non_total_labels_def split: option.split)

lemma computed_key_points_eval:
  assumes "1 < nrows df" "non_total_labels df = ls" "ls \<noteq> []"
    "per_row_utilization bs rs = u"
    "idxmax (map (\<lambda>i. (i, u ! i)) ls) = Some hi"
    "idxmin (map (\<lambda>i. (i, u ! i)) ls) = Some lo"
    "Task df = Some ts"
  shows "computed_key_points df bs rs
           = Inr (df\<lparr>Utilization := Some u\<rparr>,
                  insight_sentences (utilization_rate (column_sum bs) (column_sum rs))
                    (ts ! hi) (u ! hi) (ts ! lo) (u ! lo) (column_sum rs))"
  using assms by (simp add: computed_key_points_def select_key_points_def Let_def non_total_labels_update)

subsection \<open>The highest and the lowest row\<close>

















text \<open>
  The computed column has one value per row of a well-formed frame, and the rate of a row
  with a zero budget is never a finite number.
\<close>

lemma per_row_utilization_length:
  assumes "wf_frame df" "Budgeted df = Some bs" "Remaining df = Some rs"
  shows "length (per_row_utilization bs rs) = nrows df"
  using assms by (simp add: per_row_utilization_def wf_frame_def column_ok_def)

lemma row_utilization_zero_budget: "row_utilization (Some 0) r \<in> {NaN, PosInf, NegInf}"
  by (cases r) (auto simp: row_utilization_def cell_sub_def cell_div_def pf_scale_def pf_round1_def)

text \<open>
  C1: every row whose Budgeted value is zero yields exactly 0. The column has one value per
  row, but the per-row expression has no guard: on the table with the unfunded task Travel
  (budgeted 0, remaining 0) the rate of that row is NaN, where the claim asks for 0.
\<close>

theorem unfunded_row_is_nan:
  "key_points_of (Some unfunded_frame) =
     Inr (Some (unfunded_frame\<lparr>Utilization := Some [Fin 80, NaN]\<rparr>),
          [''Overall budget utilization stands at 80.0%'',
           ''Highest utilization: Design at 80.0%'',
           ''Lowest utilization: Design at 80.0%'',
           ''Total remaining funds: $200''])"
  by code_simp

subsection \<open>Scenario A\<close>

lemma scenario_A_rows:
  "per_row_utilization [Some 1000, Some 2000, Some 3000] [Some 200, Some 500, Some 700]
     = [Fin 80, Fin 75, Fin (767 / 10)]"
  by (simp add: row_eval)

lemma scenario_A_labels: "non_total_labels scenario_A = [0, 1]"
  by (simp add: non_total_labels_def scenario_A_def upt_rec)

lemma scenario_A_best:
  "idxmax (map (\<lambda>i. (i, [Fin 80, Fin 75, Fin (767 / 10)] ! i)) [0, 1]) = Some 0"
  "idxmin (map (\<lambda>i. (i, [Fin 80, Fin 75, Fin (767 / 10)] ! i)) [0, 1]) = Some 1"
  by (simp_all add: idxmax_def idxmin_def)

lemma scenario_A_sentences:
  "insight_sentences (230 / 3) ''Design'' (Fin 80) ''Build'' (Fin 75) 1400
     = [''Overall budget utilization stands at 76.7%'',
        ''Highest utilization: Design at 80.0%'',
        ''Lowest utilization: Build at 75.0%'',
        ''Total remaining funds: $1,400'']"
  by (simp add: insight_sentences_def fmt_eval)

lemma scenario_A_columns:
  "Budgeted scenario_A = Some [Some 1000, Some 2000, Some 3000]"
  "Remaining scenario_A = Some [Some 200, Some 500, Some 700]"
  "Task scenario_A = Some [''Design'', ''Build'', ''TOTALS'']"
  "1 < nrows scenario_A"
  by (simp_all add: scenario_A_def)

lemma scenario_A_sums:
  "column_sum [Some 1000, Some 2000, Some 3000] = 6000"
  "column_sum [Some 200, Some 500, Some 700] = 1400"
  "utilization_rate 6000 1400 = 230 / 3"
  by (simp_all add: column_sum_def utilization_rate_def)

lemma scenario_A_computed:
  "computed_key_points scenario_A [Some 1000, Some 2000, Some 3000] [Some 200, Some 500, Some 700]
     = Inr (scenario_A\<lparr>Utilization := Some [Fin 80, Fin 75, Fin (767 / 10)]\<rparr>,
            insight_sentences (230 / 3) ''Design'' (Fin 80) ''Build'' (Fin 75) 1400)"
proof -
  have ne: "[0, 1] \<noteq> ([] :: nat list)" by simp
  note e = computed_key_points_eval[OF scenario_A_columns(4) scenario_A_labels ne
      scenario_A_rows scenario_A_best scenario_A_columns(3)]
  show ?thesis unfolding e scenario_A_sums by simp
qed

lemma scenario_A_key_points:
  "key_points_of (Some scenario_A) =
       Inr (Some (scenario_A\<lparr>Utilization := Some [Fin 80, Fin 75, Fin (767 / 10)]\<rparr>),
            [''Overall budget utilization stands at 76.7%'',
             ''Highest utilization: Design at 80.0%'',
             ''Lowest utilization: Build at 75.0%'',
             ''Total remaining funds: $1,400''])"
  by (simp add: key_points_of_def scenario_A_columns scenario_A_computed scenario_A_sentences)

text \<open>
  C2: scenario A gives total-budgeted 3000 and total-remaining 700. The rate (76.7), the
  highest task (Design, 80.0) and the lowest (Build, 75.0) are as claimed, but both totals
  are sums over every row of the column, the TOTALS row included: 6000 and 1400.
\<close>

theorem scenario_A_totals:
  "column_total (Budgeted scenario_A) = 6000
   \<and> column_total (Remaining scenario_A) = 1400
   \<and> summary_text scenario_A
       = ''Total Budget: $6,000 | Utilization Rate: 76.7% | Remaining: $1,400''
   \<and> key_points_of (Some scenario_A) =
       Inr (Some (scenario_A\<lparr>Utilization := Some [Fin 80, Fin 75, Fin (767 / 10)]\<rparr>),
            [''Overall budget utilization stands at 76.7%'',
             ''Highest utilization: Design at 80.0%'',
             ''Lowest utilization: Build at 75.0%'',
             ''Total remaining funds: $1,400''])"
proof (intro conjI)
  show b: "column_total (Budgeted scenario_A) = 6000"
    by (simp add: column_total_def scenario_A_columns scenario_A_sums)
  show r: "column_total (Remaining scenario_A) = 1400"
    by (simp add: column_total_def scenario_A_columns scenario_A_sums)
  have "summary_text scenario_A
       = ''Total Budget: $'' @ fmt_fixed True 0 6000
         @ '' | Utilization Rate: '' @ fmt_fixed False 1 (230 / 3)
         @ ''% | Remaining: $'' @ fmt_fixed True 0 1400"
    by (simp add: summary_text_def b r scenario_A_sums)
  also have "\<dots> = ''Total Budget: $6,000 | Utilization Rate: 76.7% | Remaining: $1,400''"
    by (simp add: fmt_eval)
  finally show "summary_text scenario_A
       = ''Total Budget: $6,000 | Utilization Rate: 76.7% | Remaining: $1,400''" .
  show "key_points_of (Some scenario_A) =
       Inr (Some (scenario_A\<lparr>Utilization := Some [Fin 80, Fin 75, Fin (767 / 10)]\<rparr>),
            [''Overall budget utilization stands at 76.7%'',
             ''Highest utilization: Design at 80.0%'',
             ''Lowest utilization: Build at 75.0%'',
             ''Total remaining funds: $1,400''])"
    by (rule scenario_A_key_points)
qed

subsection \<open>The fallback to the default statements\<close>








section \<open>The chart and the run\<close>

subsection \<open>Figures\<close>

lemma add_budget_chart_figures:
  assumes "data g \<noteq> None"
  shows "open_figures (snd (snd (add_budget_chart e g plt)))
           = (if fault e = SavefigRaises \<or> fault e = AddPictureRaises
              then open_figures plt + 1 else open_figures plt)"
  using assms by (cases "fault e") (auto simp: add_budget_chart_def Let_def)

text \<open>
  C8: the number of open figures after a render call equals the number before it, also
  when the back end raises. The figure is closed on the path where everything succeeds
  only: when \<^verbatim>\<open>savefig\<close> raises, the call that began with no figure open returns
  \<^verbatim>\<open>False\<close> with one figure open.
\<close>

theorem figure_left_open:
  "fst (add_budget_chart savefig_fails loaded_generator idle_pyplot) = False
   \<and> open_figures idle_pyplot = 0
   \<and> open_figures (snd (snd (add_budget_chart savefig_fails loaded_generator idle_pyplot))) = 1"
  by (simp add: add_budget_chart_def Let_def savefig_fails_def loaded_generator_def idle_pyplot_def)

subsection \<open>What a run returns\<close>

lemma markdown_no_picture: "Picture p \<notin> set (markdown_blocks c)"
  by (auto simp: markdown_blocks_def paragraph_blocks_def Let_def)

lemma add_markdown_content_no_picture:
  "Picture p \<notin> set doc \<Longrightarrow> Picture p \<notin> set (add_markdown_content files f dflt doc)"
  by (auto simp: add_markdown_content_def Let_def markdown_no_picture split: option.splits)

lemma intro_no_picture:
  "Picture p \<notin> set (document (add_introduction e (create_document e g)))"
  by (simp add: add_introduction_def create_document_def Let_def add_markdown_content_no_picture)

lemma add_budget_table_no_picture:
  assumes "add_budget_table g = Inr (t, g')" "Picture p \<notin> set (document g)"
  shows "Picture p \<notin> set (document g')"
  using assms
  by (auto simp: add_budget_table_def split: option.splits sum.splits)

lemma add_key_points_no_picture:
  assumes "add_key_points e g = Inr g'" "Picture p \<notin> set (document g)"
  shows "Picture p \<notin> set (document g')"
  using assms
  by (auto simp: add_key_points_def Let_def add_markdown_content_no_picture split: sum.splits)

lemma add_budget_chart_fails:
  assumes "fault e \<noteq> NoFault" "add_budget_chart e g plt = (c, g', plt')"
    "Picture p \<notin> set (document g)"
  shows "c = False \<and> Picture p \<notin> set (document g')"
  using assms
  by (cases "fault e")
     (auto simp: add_budget_chart_def Let_def add_markdown_content_no_picture split: option.splits)

lemma sequence_Inr: "sequence (map Inr xs) = Inr xs"
  by (induction xs) simp_all

lemma row_texts_plain:
  assumes "Utilization df = None"
  shows "\<exists>r. row_texts df i = Inr r"
proof -
  have "row_texts df i =
     sequence (map Inr
       ((case Task df of None \<Rightarrow> [] | Some ts \<Rightarrow> [ts ! i])
        @ (case Budgeted df of None \<Rightarrow> [] | Some bs \<Rightarrow> [cell_text (bs ! i)])
        @ (case Remaining df of None \<Rightarrow> [] | Some rs \<Rightarrow> [cell_text (rs ! i)])))"
    using assms by (simp add: row_texts_def split: option.splits)
  then show ?thesis by (simp only: sequence_Inr) blast
qed

lemma rows_plain:
  assumes "Utilization df = None"
  shows "\<exists>rows. sequence (map (row_texts df) ixs) = Inr rows"
proof (induction ixs)
  case Nil
  show ?case by simp
next
  case (Cons i ixs)
  then obtain rows where "sequence (map (row_texts df) ixs) = Inr rows" by blast
  moreover obtain r where "row_texts df i = Inr r"
    using row_texts_plain[OF assms] by blast
  ultimately show ?case by simp
qed

lemma add_budget_table_runs:
  assumes "data g = Some df" "Utilization df = None"
  shows "\<exists>g'. add_budget_table g = Inr (True, g') \<and> data g' = Some df"
proof -
  obtain rows where "sequence (map (row_texts df) [0..<nrows df]) = Inr rows"
    using rows_plain[OF assms(2)] by blast
  then show ?thesis using assms(1) by (simp add: add_budget_table_def)
qed

lemma add_key_points_runs:
  assumes "data g = Some df" "key_points_of (Some df) = Inr (d, kp)"
  shows "\<exists>g'. add_key_points e g = Inr g'"
  using assms by (simp add: add_key_points_def Let_def)

lemma generate_report_runs:
  assumes "excel e (excel_file g) = Some df" "Utilization df = None"
    "key_points_of (Some df) = Inr (d, kp)"
  shows "\<exists>g' plt'. generate_report e g plt = Inr (save_ok e, g', plt')"
proof -
  let ?g0 = "g\<lparr>data := Some df\<rparr>"
  let ?g2 = "add_introduction e (create_document e ?g0)"
  have l: "load_data e g = (True, ?g0)"
    using assms(1) by (simp add: load_data_def)
  have d2: "data ?g2 = Some df"
    by (simp add: add_introduction_def create_document_def Let_def)
  obtain g3 where t: "add_budget_table ?g2 = Inr (True, g3)" and d3: "data g3 = Some df"
    using add_budget_table_runs[OF d2 assms(2)] by blast
  obtain g4 where k: "add_key_points e g3 = Inr g4"
    using add_key_points_runs[OF d3 assms(3)] by blast
  obtain c g5 plt' where ch: "add_budget_chart e g4 plt = (c, g5, plt')"
    by (cases "add_budget_chart e g4 plt") auto
  show ?thesis
    by (simp add: generate_report_def l t k ch save_document_def Let_def)
qed

lemma generate_report_result:
  assumes "excel e (excel_file g) = Some df" "generate_report e g plt = Inr (ok, g', plt')"
  shows "ok = save_ok e \<and> (fault e \<noteq> NoFault \<longrightarrow> Picture p \<notin> set (document g'))"
proof -
  let ?g0 = "g\<lparr>data := Some df\<rparr>"
  let ?g2 = "add_introduction e (create_document e ?g0)"
  have l: "load_data e g = (True, ?g0)"
    using assms(1) by (simp add: load_data_def)
  from assms(2) obtain t g3 where t: "add_budget_table ?g2 = Inr (t, g3)"
    by (cases "add_budget_table ?g2") (auto simp: generate_report_def l Let_def)
  from assms(2) obtain g4 where k: "add_key_points e g3 = Inr g4"
    by (cases "add_key_points e g3") (auto simp: generate_report_def l t Let_def)
  obtain c g5 plt5 where ch: "add_budget_chart e g4 plt = (c, g5, plt5)"
    by (cases "add_budget_chart e g4 plt") auto
  have r: "ok = save_ok e" "g' = g5"
    using assms(2) by (simp_all add: generate_report_def l t k ch save_document_def Let_def)
  have "Picture p \<notin> set (document ?g2)" by (rule intro_no_picture)
  then have "Picture p \<notin> set (document g3)" using t by (rule add_budget_table_no_picture[rotated])
  then have "Picture p \<notin> set (document g4)" using k by (rule add_key_points_no_picture[rotated])
  then have "fault e \<noteq> NoFault \<longrightarrow> Picture p \<notin> set (document g5)"
    using ch add_budget_chart_fails by blast
  then show ?thesis using r by simp
qed

lemma savefig_fails_eval:
  "fault savefig_fails = SavefigRaises" "save_ok savefig_fails"
  "excel savefig_fails ''budget.xlsx'' = Some scenario_A"
  "Utilization scenario_A = None" "data loaded_generator = Some scenario_A"
  by (simp_all add: savefig_fails_def budget_sheet_def scenario_A_def loaded_generator_def)

text \<open>
  C3, as stated: when chart rendering raises, the run is failed, with a false result and a
  non-zero exit code. On the table of scenario A with a failing \<^verbatim>\<open>savefig\<close> and a save
  that succeeds, the exit code is 0.
\<close>

theorem chart_failure_exit_code_0:
  "fault savefig_fails = SavefigRaises
   \<and> main savefig_fails ''budget.xlsx'' None idle_pyplot = Inr 0"
proof -
  have x: "excel_file (init savefig_fails ''budget.xlsx'' None) = ''budget.xlsx''"
    by (simp add: init_def)
  obtain g' plt' where
    "generate_report savefig_fails (init savefig_fails ''budget.xlsx'' None) idle_pyplot
       = Inr (save_ok savefig_fails, g', plt')"
    using generate_report_runs[of savefig_fails "init savefig_fails ''budget.xlsx'' None"
        scenario_A _ _ idle_pyplot] x savefig_fails_eval(3,4) scenario_A_key_points
    by auto
  then show ?thesis
    by (simp add: main_def Let_def savefig_fails_eval)
qed

text \<open>
  C3, amended. When chart rendering raises, the error is caught and reported,
  \<^verbatim>\<open>add_budget_chart\<close> returns \<^verbatim>\<open>False\<close>, and the run goes on: a run that completes has
  saved the document without the chart picture, its result is the result of the save, and
  the exit code is 0 when the save succeeded and 1 when it did not. A run on a table
  whose key points can be computed does complete, whatever the chart back end does.
\<close>

theorem chart_failure_not_fatal:
  "(fault e \<noteq> NoFault \<and> data g \<noteq> None \<longrightarrow> fst (add_budget_chart e g plt) = False)
   \<and> (\<forall>df ok g' plt'.
         fault e \<noteq> NoFault \<and> excel e input = Some df
         \<and> generate_report e (init e input out) plt = Inr (ok, g', plt')
       \<longrightarrow> ok = save_ok e \<and> Picture ''budget_chart.png'' \<notin> set (document g')
           \<and> main e input out plt = Inr (if save_ok e then 0 else 1))
   \<and> (\<forall>df d kp.
         excel e input = Some df \<and> Utilization df = None
         \<and> key_points_of (Some df) = Inr (d, kp)
       \<longrightarrow> (\<exists>g' plt'. generate_report e (init e input out) plt = Inr (save_ok e, g', plt')))"
proof (intro conjI allI impI)
  assume "fault e \<noteq> NoFault \<and> data g \<noteq> None"
  then show "fst (add_budget_chart e g plt) = False"
    by (cases "fault e") (auto simp: add_budget_chart_def Let_def)
next
  fix df ok g' plt'
  assume a: "fault e \<noteq> NoFault \<and> excel e input = Some df
         \<and> generate_report e (init e input out) plt = Inr (ok, g', plt')"
  have x: "excel_file (init e input out) = input" by (simp add: init_def)
  from a have r: "ok = save_ok e \<and> (fault e \<noteq> NoFault \<longrightarrow> Picture ''budget_chart.png'' \<notin> set (document g'))"
    using generate_report_result[of e "init e input out" df plt ok g' plt' "''budget_chart.png''"] x
    by simp
  then show "ok = save_ok e" by simp
  from r a show "Picture ''budget_chart.png'' \<notin> set (document g')" by simp
  from r a show "main e input out plt = Inr (if save_ok e then 0 else 1)"
    by (simp add: main_def Let_def)
next
  fix df d kp
  assume a: "excel e input = Some df \<and> Utilization df = None
         \<and> key_points_of (Some df) = Inr (d, kp)"
  have x: "excel_file (init e input out) = input" by (simp add: init_def)
  show "\<exists>g' plt'. generate_report e (init e input out) plt = Inr (save_ok e, g', plt')"
    using a generate_report_runs[of e "init e input out" df d kp plt] x by simp
qed

theorem chart_failure_not_fatal_witness:
  "fst (add_budget_chart savefig_fails loaded_generator idle_pyplot) = False
   \<and> main savefig_fails ''budget.xlsx'' None idle_pyplot = Inr 0"
proof -
  note t = chart_failure_not_fatal[of savefig_fails loaded_generator idle_pyplot
      "''budget.xlsx''" None]
  have nf: "fault savefig_fails \<noteq> NoFault" by (simp add: savefig_fails_eval)
  have "data loaded_generator \<noteq> None" by (simp add: savefig_fails_eval)
  with nf t have c: "fst (add_budget_chart savefig_fails loaded_generator idle_pyplot) = False"
    by blast
  from t savefig_fails_eval(3,4) scenario_A_key_points obtain g' plt' where
    "generate_report savefig_fails (init savefig_fails ''budget.xlsx'' None) idle_pyplot
       = Inr (save_ok savefig_fails, g', plt')"
    by blast
  with t nf savefig_fails_eval(3) have
    "main savefig_fails ''budget.xlsx'' None idle_pyplot
       = Inr (if save_ok savefig_fails then 0 else 1)"
    by blast
  then show ?thesis using c by (simp add: savefig_fails_eval)
qed

end
